theory Spec2Isabelle
  imports Main "HOL-Library.Sublist"
begin

section \<open>slack-bot-cleaner: a shallow embedding of main.go\<close>

text \<open>
  The program reads a YAML settings file, resolves every configured user to a
  direct-message conversation and deletes the history of each conversation page by page.
  Everything the Go code does beyond computing values is explicit here: the platform
  client is a record of state transformers, every call, sleep and log line is appended to
  a trace, and every \<^verbatim>\<open>return err\<close> is a branch of the result type.
\<close>

subsection \<open>Errors\<close>

text \<open>
  A Go \<^verbatim>\<open>error\<close> is a value with a message. The constructors name where the
  program gets its errors from: \<^verbatim>\<open>os.ReadFile\<close>, \<^verbatim>\<open>yaml.Unmarshal\<close>,
  \<^verbatim>\<open>fmt.Errorf\<close> and the Slack client. The type \<^verbatim>\<open>errInvalidConfig\<close> of main.go
  (lines 19-23) is constructed nowhere in the program and has no constructor here.
\<close>

datatype error =
    ReadFileError string
  | YamlError string
  | Errorf string
  | ClientError string

fun Error :: "error \<Rightarrow> string" where
  "Error (ReadFileError m) = m"
| "Error (YamlError m) = m"
| "Error (Errorf m) = m"
| "Error (ClientError m) = m"

text \<open>\<^verbatim>\<open>strings.Contains(s, substr)\<close>: \<open>substr\<close> occurs in \<open>s\<close> as a contiguous run.\<close>

fun Contains :: "string \<Rightarrow> string \<Rightarrow> bool" where
  "Contains [] substr = (substr = [])"
| "Contains (c # s) substr = (prefix substr (c # s) \<or> Contains s substr)"

text \<open>The test of main.go line 103 on a delete error.\<close>

definition isRateLimit :: "error \<Rightarrow> bool" where
  "isRateLimit err = Contains (Error err) ''slack rate limit exceeded''"

subsection \<open>Configuration\<close>

record config =
  Token :: string
  Convs :: "string list"
  Users :: "string list"

text \<open>
  The file system and the YAML decoder are libraries outside the repository; they are
  parameters of the model. \<open>Unmarshal\<close> returns the decoded \<open>config\<close>, a field absent
  from the document keeping Go's zero value (\<open>''''\<close>, \<open>[]\<close>).
\<close>

record env =
  ReadFile :: "string \<Rightarrow> error + string"
  Unmarshal :: "string \<Rightarrow> error + config"

definition validateYmlFile :: "config \<Rightarrow> error + config" where
  "validateYmlFile c =
     (if Token c = '''' then Inl (Errorf ''invalid api token'')
      else if length (Users c) = 0 \<and> length (Convs c) = 0
        then Inl (Errorf ''Need either one user or conversation'')
      else Inr c)"

definition readYmlFile :: "env \<Rightarrow> string \<Rightarrow> error + config" where
  "readYmlFile e p =
     (case ReadFile e p of
        Inl err \<Rightarrow> Inl err
      | Inr b \<Rightarrow>
          (case Unmarshal e b of
             Inl err \<Rightarrow> Inl err
           | Inr c \<Rightarrow> validateYmlFile c))"

text \<open>
  The two errors that \<open>validateYmlFile\<close> builds (lines 154 and 157). They are what the
  specification calls \<open>InvalidConfig\<close>: a missing credential, or no target at all.
\<close>

definition isInvalidConfig :: "error \<Rightarrow> bool" where
  "isInvalidConfig err =
     (err = Errorf ''invalid api token'' \<or> err = Errorf ''Need either one user or conversation'')"

subsection \<open>The platform client and the trace of effects\<close>

record message =
  Timestamp :: string

record history =
  Messages :: "message list"
  HasMore :: bool

text \<open>
  The three calls the program makes on \<^verbatim>\<open>*slack.Client\<close>, over a platform state
  \<open>'s\<close>. \<open>OpenConversation\<close> takes the \<^verbatim>\<open>Users\<close> field of its parameters and returns
  the channel's \<^verbatim>\<open>ID\<close>; \<open>GetConversationHistory\<close> takes the \<^verbatim>\<open>ChannelID\<close> field, the
  only one main.go sets; \<open>DeleteMessage\<close> takes the channel and the timestamp.
\<close>

record 's client =
  OpenConversation :: "string list \<Rightarrow> 's \<Rightarrow> (error + string) \<times> 's"
  GetConversationHistory :: "string \<Rightarrow> 's \<Rightarrow> (error + history) \<times> 's"
  DeleteMessage :: "string \<Rightarrow> string \<Rightarrow> 's \<Rightarrow> error option \<times> 's"

datatype event =
    OpenConversationCall "string list"
  | GetConversationHistoryCall string
  | DeleteMessageCall string string
  | Sleep int
  | LogPrintf string

record 's world =
  platform :: 's
  trace :: "event list"

definition emit :: "event \<Rightarrow> 's world \<Rightarrow> 's world" where
  "emit ev w = w\<lparr>trace := trace w @ [ev]\<rparr>"

text \<open>\<^verbatim>\<open>time.Second\<close>, in nanoseconds.\<close>

definition Second :: int where
  "Second = 1000000000"

definition callOpenConversation ::
  "'s client \<Rightarrow> string list \<Rightarrow> 's world \<Rightarrow> (error + string) \<times> 's world" where
  "callOpenConversation api us w =
     (case OpenConversation api us (platform w) of
        (r, s) \<Rightarrow> (r, emit (OpenConversationCall us) (w\<lparr>platform := s\<rparr>)))"

definition callGetConversationHistory ::
  "'s client \<Rightarrow> string \<Rightarrow> 's world \<Rightarrow> (error + history) \<times> 's world" where
  "callGetConversationHistory api conv w =
     (case GetConversationHistory api conv (platform w) of
        (r, s) \<Rightarrow> (r, emit (GetConversationHistoryCall conv) (w\<lparr>platform := s\<rparr>)))"

definition callDeleteMessage ::
  "'s client \<Rightarrow> string \<Rightarrow> string \<Rightarrow> 's world \<Rightarrow> error option \<times> 's world" where
  "callDeleteMessage api conv ts w =
     (case DeleteMessage api conv ts (platform w) of
        (r, s) \<Rightarrow> (r, emit (DeleteMessageCall conv ts) (w\<lparr>platform := s\<rparr>)))"

subsection \<open>Resolving conversations\<close>

definition getChannelIDFromUser ::
  "string \<Rightarrow> 's client \<Rightarrow> 's world \<Rightarrow> (error + string) \<times> 's world" where
  "getChannelIDFromUser userID api w =
     (case callOpenConversation api [userID] w of
        (Inl err, w1) \<Rightarrow> (Inl err, w1)
      | (Inr channelID, w1) \<Rightarrow> (Inr channelID, w1))"

definition getConvoFromUser ::
  "'s client \<Rightarrow> string \<Rightarrow> 's world \<Rightarrow> (error + string) \<times> 's world" where
  "getConvoFromUser api user w =
     (case getChannelIDFromUser user api w of
        (Inl err, w1) \<Rightarrow> (Inl err, w1)
      | (Inr conv, w1) \<Rightarrow> (Inr conv, w1))"

text \<open>The \<^verbatim>\<open>range config.Users\<close> loop of \<open>getConvos\<close>, \<open>convs\<close> being the slice built so far.\<close>

fun getConvos_users ::
  "'s client \<Rightarrow> string list \<Rightarrow> string list \<Rightarrow> 's world \<Rightarrow> (error + string list) \<times> 's world" where
  "getConvos_users api [] convs w = (Inr convs, w)"
| "getConvos_users api (u # us) convs w =
     (case getConvoFromUser api u w of
        (Inl err, w1) \<Rightarrow> (Inl err, w1)
      | (Inr conversation, w1) \<Rightarrow> getConvos_users api us (convs @ [conversation]) w1)"

definition getConvos ::
  "'s client \<Rightarrow> config \<Rightarrow> 's world \<Rightarrow> (error + string list) \<times> 's world" where
  "getConvos api cfg w =
     (if length (Convs cfg) = 0 then getConvos_users api (Users cfg) [] w
      else (Inr [], w))"

subsection \<open>Deleting a conversation's history\<close>

text \<open>
  The \<^verbatim>\<open>range hist.Messages\<close> loop of \<open>deleteConvo\<close> (lines 99-111). \<open>Some err\<close> is the
  \<^verbatim>\<open>return err\<close> of line 108, which leaves the whole function.
\<close>

fun deleteMessages ::
  "'s client \<Rightarrow> string \<Rightarrow> message list \<Rightarrow> 's world \<Rightarrow> error option \<times> 's world" where
  "deleteMessages api conv [] w = (None, w)"
| "deleteMessages api conv (m # ms) w =
     (case callDeleteMessage api conv (Timestamp m)
             (emit (LogPrintf (''Deleting message in channel '' @ conv @
                                '' with timestamp '' @ Timestamp m)) w) of
        (None, w1) \<Rightarrow> deleteMessages api conv ms w1
      | (Some err, w1) \<Rightarrow>
          if Contains (Error err) ''slack rate limit exceeded''
          then deleteMessages api conv ms
                 (emit (Sleep (30 * Second))
                    (emit (LogPrintf ''Slack limit exceeded, sleeping for 30 seconds'') w1))
          else (Some err, w1))"

text \<open>
  The \<^verbatim>\<open>for !cont\<close> loop (lines 90-113), \<open>cont\<close> being the loop variable. The loop need
  not end (a platform may serve non-empty pages for ever), so not returning is \<open>None\<close>;
  a run that returns gives \<open>Some (err, w)\<close> with \<open>err = None\<close> for \<^verbatim>\<open>return nil\<close>.
\<close>

partial_function (option) deleteConvo_loop ::
  "'s client \<Rightarrow> string \<Rightarrow> bool \<Rightarrow> 's world \<Rightarrow> (error option \<times> 's world) option" where
  "deleteConvo_loop api conv cont w =
     (if \<not> cont then
        (case callGetConversationHistory api conv w of
           (Inl err, w1) \<Rightarrow> Some (Some err, w1)
         | (Inr hist, w1) \<Rightarrow>
             if length (Messages hist) = 0
             then Some (None, emit (LogPrintf (''All messages cleared for channel: '' @ conv)) w1)
             else (case deleteMessages api conv (Messages hist) w1 of
                     (Some err, w2) \<Rightarrow> Some (Some err, w2)
                   | (None, w2) \<Rightarrow> deleteConvo_loop api conv (HasMore hist) w2))
      else Some (None, w))"

declare deleteConvo_loop.simps [code]

definition deleteConvo ::
  "'s client \<Rightarrow> string \<Rightarrow> 's world \<Rightarrow> (error option \<times> 's world) option" where
  "deleteConvo api conv w = deleteConvo_loop api conv False w"

subsection \<open>Reading the trace\<close>


subsection \<open>A concrete platform and a concrete file system\<close>

text \<open>
  A small platform on which the operations are run: its state is the list of answers the
  history endpoint still has to give (an exhausted list answers with an empty page), users
  \<open>U1\<close> and \<open>U2\<close> have the conversations \<open>D1\<close> and \<open>D2\<close>, deleting the message
  \<open>100.2\<close> is rate limited and deleting \<open>100.3\<close> is refused.
\<close>

definition exampleClient :: "((error + history) list) client" where
  "exampleClient =
     \<lparr>OpenConversation = (\<lambda>us s.
        (if us = [''U1''] then Inr ''D1''
         else if us = [''U2''] then Inr ''D2''
         else Inl (ClientError ''user_not_found''), s)),
      GetConversationHistory = (\<lambda>conv s.
        case s of
          [] \<Rightarrow> (Inr \<lparr>Messages = [], HasMore = False\<rparr>, [])
        | r # rs \<Rightarrow> (r, rs)),
      DeleteMessage = (\<lambda>conv ts s.
        (if ts = ''100.2'' then Some (ClientError ''slack rate limit exceeded, retry after 30s'')
         else if ts = ''100.3'' then Some (ClientError ''cant_delete_message'')
         else None, s))\<rparr>"

text \<open>Three settings files and what the decoder makes of them.\<close>

definition exampleEnv :: env where
  "exampleEnv =
     \<lparr>ReadFile = (\<lambda>p.
        if p = ''users.yml'' then Inr ''{apitoken: xoxb-1, userid: [U1]}''
        else if p = ''token.yml'' then Inr ''{apitoken: xoxb-1}''
        else if p = ''empty.yml'' then Inr ''''
        else Inl (ReadFileError ''open: no such file or directory'')),
      Unmarshal = (\<lambda>b.
        if b = ''{apitoken: xoxb-1, userid: [U1]}''
          then Inr \<lparr>Token = ''xoxb-1'', Convs = [], Users = [''U1'']\<rparr>
        else if b = ''{apitoken: xoxb-1}''
          then Inr \<lparr>Token = ''xoxb-1'', Convs = [], Users = []\<rparr>
        else if b = '''' then Inr \<lparr>Token = '''', Convs = [], Users = []\<rparr>
        else Inl (YamlError ''yaml: unmarshal errors''))\<rparr>"

subsection \<open>The platform's answers along a run\<close>

text \<open>
  What the platform answers when a conversation is opened for each user in turn, from the
  platform state \<open>s\<close>, every call starting in the state the previous one left: \<open>Some ids\<close>
  when every one of these calls succeeds, \<open>ids\<close> being the identifiers they return in
  order, and \<open>None\<close> as soon as one of them fails.
\<close>

fun answers :: "'s client \<Rightarrow> string list \<Rightarrow> 's \<Rightarrow> string list option" where
  "answers api [] s = Some []"
| "answers api (u # us) s =
     (case OpenConversation api [u] s of
        (Inl err, s') \<Rightarrow> None
      | (Inr a, s') \<Rightarrow>
          (case answers api us s' of
             None \<Rightarrow> None
           | Some ids \<Rightarrow> Some (a # ids)))"

text \<open>
  A platform with a quota: its state is the number of conversations it will still open;
  it refuses every call once the quota is used up.
\<close>

definition quotaClient :: "nat client" where
  "quotaClient =
     \<lparr>OpenConversation = (\<lambda>us n.
        if n = 0 then (Inl (ClientError ''ratelimited''), n)
        else (Inr (''D-'' @ concat us), n - 1)),
      GetConversationHistory = (\<lambda>conv n. (Inr \<lparr>Messages = [], HasMore = False\<rparr>, n)),
      DeleteMessage = (\<lambda>conv ts n. (None, n))\<rparr>"

section \<open>Properties\<close>

subsection \<open>Auxiliary facts\<close>

lemma Contains_sublist: "Contains s substr = sublist substr s"
  by (induction s) (simp_all add: sublist_Cons_right)

lemma trace_emit: "trace (emit ev w) = trace w @ [ev]"
  by (simp add: emit_def)

lemma callDeleteMessage_trace:
  "callDeleteMessage api conv ts w = (r, w') \<Longrightarrow>
     trace w' = trace w @ [DeleteMessageCall conv ts]"
  by (auto simp: callDeleteMessage_def emit_def split: prod.splits)

lemma callGetConversationHistory_trace:
  "callGetConversationHistory api conv w = (r, w') \<Longrightarrow>
     trace w' = trace w @ [GetConversationHistoryCall conv]"
  by (auto simp: callGetConversationHistory_def emit_def split: prod.splits)

lemma callOpenConversation_trace:
  "callOpenConversation api us w = (r, w') \<Longrightarrow>
     trace w' = trace w @ [OpenConversationCall us]"
  by (auto simp: callOpenConversation_def emit_def split: prod.splits)


lemmas example_run =
  deleteConvo_def deleteConvo_loop.simps exampleClient_def callGetConversationHistory_def
  callDeleteMessage_def callOpenConversation_def emit_def getConvos_def getConvoFromUser_def
  getChannelIDFromUser_def isRateLimit_def

subsection \<open>The config loader\<close>

text \<open>
  Claim C5. Once the file is read and decoded, \<open>readYmlFile\<close> is \<open>validateYmlFile\<close> on
  the decoded configuration: an empty credential fails with the invalid-api-token error, a
  credential with both lists empty fails with the need-a-target error, both of them
  \<open>InvalidConfig\<close> errors, and a credential with at least one non-empty list returns the
  configuration itself.
\<close>

theorem readYmlFile_validation:
  assumes "ReadFile e p = Inr b" and "Unmarshal e b = Inr c"
  shows "readYmlFile e p = validateYmlFile c \<and>
         (Token c = '''' \<longrightarrow> readYmlFile e p = Inl (Errorf ''invalid api token'')) \<and>
         (Token c \<noteq> '''' \<and> Users c = [] \<and> Convs c = [] \<longrightarrow>
            readYmlFile e p = Inl (Errorf ''Need either one user or conversation'')) \<and>
         (Token c \<noteq> '''' \<and> (Users c \<noteq> [] \<or> Convs c \<noteq> []) \<longrightarrow> readYmlFile e p = Inr c) \<and>
         (\<forall>err. readYmlFile e p = Inl err \<longrightarrow> isInvalidConfig err)"
  using assms by (auto simp: readYmlFile_def validateYmlFile_def isInvalidConfig_def)

theorem readYmlFile_validation_witness:
  "(Token \<lparr>Token = '''', Convs = [], Users = []\<rparr> = '''' \<and>
    readYmlFile exampleEnv ''empty.yml'' = Inl (Errorf ''invalid api token'') \<and>
    isInvalidConfig (Errorf ''invalid api token'')) \<and>
   (readYmlFile exampleEnv ''token.yml'' = Inl (Errorf ''Need either one user or conversation'') \<and>
    isInvalidConfig (Errorf ''Need either one user or conversation'')) \<and>
   readYmlFile exampleEnv ''users.yml'' =
     Inr \<lparr>Token = ''xoxb-1'', Convs = [], Users = [''U1'']\<rparr>"
proof -
  have r1: "ReadFile exampleEnv ''empty.yml'' = Inr ''''"
    and u1: "Unmarshal exampleEnv '''' = Inr \<lparr>Token = '''', Convs = [], Users = []\<rparr>"
    and r2: "ReadFile exampleEnv ''token.yml'' = Inr ''{apitoken: xoxb-1}''"
    and u2: "Unmarshal exampleEnv ''{apitoken: xoxb-1}'' =
               Inr \<lparr>Token = ''xoxb-1'', Convs = [], Users = []\<rparr>"
    and r3: "ReadFile exampleEnv ''users.yml'' = Inr ''{apitoken: xoxb-1, userid: [U1]}''"
    and u3: "Unmarshal exampleEnv ''{apitoken: xoxb-1, userid: [U1]}'' =
               Inr \<lparr>Token = ''xoxb-1'', Convs = [], Users = [''U1'']\<rparr>"
    by (simp_all add: exampleEnv_def)
  show ?thesis
    using readYmlFile_validation [OF r1 u1] readYmlFile_validation [OF r2 u2]
      readYmlFile_validation [OF r3 u3]
    by (simp add: validateYmlFile_def isInvalidConfig_def)
qed

text \<open>
  Claim C10, as stated: every decodable document that lacks some of the three fields is
  rejected. It is not so: \<open>users.yml\<close> has a credential and a user list and no
  conversation list, and it is accepted.
\<close>

theorem readYmlFile_missing_Convs_accepted:
  "ReadFile exampleEnv ''users.yml'' = Inr ''{apitoken: xoxb-1, userid: [U1]}'' \<and>
   Unmarshal exampleEnv ''{apitoken: xoxb-1, userid: [U1]}'' =
     Inr \<lparr>Token = ''xoxb-1'', Convs = [], Users = [''U1'']\<rparr> \<and>
   Convs \<lparr>Token = ''xoxb-1'', Convs = [], Users = [''U1'']\<rparr> = [] \<and>
   readYmlFile exampleEnv ''users.yml'' =
     Inr \<lparr>Token = ''xoxb-1'', Convs = [], Users = [''U1'']\<rparr>"
  by (simp add: exampleEnv_def readYmlFile_def validateYmlFile_def)

text \<open>
  Claim C10, amended. A document that decodes without error and lacks the credential, or
  lacks both target lists, makes \<open>readYmlFile\<close> fail with an \<open>InvalidConfig\<close> error and
  never with a decoder error; when the credential is missing the error is the
  invalid-api-token one, whatever the lists are. A document that has a credential and
  lacks exactly one of the two target lists is accepted: \<open>readYmlFile\<close> returns the decoded
  configuration.
\<close>

theorem readYmlFile_missing_fields:
  assumes "ReadFile e p = Inr b" and "Unmarshal e b = Inr c"
  shows "(Token c = '''' \<or> (Users c = [] \<and> Convs c = []) \<longrightarrow>
           (\<exists>err. readYmlFile e p = Inl err \<and> isInvalidConfig err \<and> (\<forall>m. err \<noteq> YamlError m) \<and>
              (Token c = '''' \<longrightarrow> err = Errorf ''invalid api token''))) \<and>
         (Token c \<noteq> '''' \<and>
            ((Users c = [] \<and> Convs c \<noteq> []) \<or> (Users c \<noteq> [] \<and> Convs c = [])) \<longrightarrow>
            readYmlFile e p = Inr c)"
  using assms by (auto simp: readYmlFile_def validateYmlFile_def isInvalidConfig_def)

theorem readYmlFile_missing_fields_witness:
  "ReadFile exampleEnv ''empty.yml'' = Inr '''' \<and>
   Unmarshal exampleEnv '''' = Inr \<lparr>Token = '''', Convs = [], Users = []\<rparr> \<and>
   readYmlFile exampleEnv ''empty.yml'' = Inl (Errorf ''invalid api token'') \<and>
   isInvalidConfig (Errorf ''invalid api token'') \<and>
   ReadFile exampleEnv ''users.yml'' = Inr ''{apitoken: xoxb-1, userid: [U1]}'' \<and>
   Unmarshal exampleEnv ''{apitoken: xoxb-1, userid: [U1]}'' =
     Inr \<lparr>Token = ''xoxb-1'', Convs = [], Users = [''U1'']\<rparr> \<and>
   readYmlFile exampleEnv ''users.yml'' =
     Inr \<lparr>Token = ''xoxb-1'', Convs = [], Users = [''U1'']\<rparr>"
proof -
  have r1: "ReadFile exampleEnv ''empty.yml'' = Inr ''''"
    and u1: "Unmarshal exampleEnv '''' = Inr \<lparr>Token = '''', Convs = [], Users = []\<rparr>"
    and r2: "ReadFile exampleEnv ''users.yml'' = Inr ''{apitoken: xoxb-1, userid: [U1]}''"
    and u2: "Unmarshal exampleEnv ''{apitoken: xoxb-1, userid: [U1]}'' =
               Inr \<lparr>Token = ''xoxb-1'', Convs = [], Users = [''U1'']\<rparr>"
    by (simp_all add: exampleEnv_def)
  from readYmlFile_missing_fields [OF r1 u1] readYmlFile_missing_fields [OF r2 u2] r1 u1 r2 u2
  show ?thesis by auto
qed

subsection \<open>The conversation resolver\<close>

lemma getConvoFromUser_call: "getConvoFromUser api u w = callOpenConversation api [u] w"
  by (simp add: getConvoFromUser_def getChannelIDFromUser_def split: prod.splits sum.splits)

lemma getConvos_users_append:
  "getConvos_users api (xs @ ys) convs w =
     (case getConvos_users api xs convs w of
        (Inl err, w1) \<Rightarrow> (Inl err, w1)
      | (Inr ids, w1) \<Rightarrow> getConvos_users api ys ids w1)"
  by (induction xs arbitrary: convs w) (auto split: prod.splits sum.splits)

lemma getConvos_users_trace:
  "getConvos_users api us convs w = (Inr ids, w') \<Longrightarrow>
     trace w' = trace w @ map (\<lambda>u. OpenConversationCall [u]) us"
proof (induction us arbitrary: convs w)
  case Nil
  then show ?case by simp
next
  case (Cons u us)
  obtain r w1 where c: "callOpenConversation api [u] w = (r, w1)"
    by (cases "callOpenConversation api [u] w")
  with Cons.prems obtain a where a: "r = Inr a"
    by (cases r) (auto simp: getConvoFromUser_call)
  with Cons.prems c have "getConvos_users api us (convs @ [a]) w1 = (Inr ids, w')"
    by (simp add: getConvoFromUser_call)
  from Cons.IH [OF this] callOpenConversation_trace [OF c] show ?case by simp
qed

lemma answers_length: "answers api us s = Some ids \<Longrightarrow> length ids = length us"
  by (induction us arbitrary: s ids) (auto split: prod.splits sum.splits option.splits)

text \<open>
  When every call of the run succeeds, the loop returns what it had, followed by the
  answers of the calls it made, in order.
\<close>

lemma getConvos_users_answers:
  "answers api us (platform w) = Some ids \<Longrightarrow>
     \<exists>w'. getConvos_users api us convs w = (Inr (convs @ ids), w')"
proof (induction us arbitrary: convs w ids)
  case Nil
  then show ?case by simp
next
  case (Cons u us)
  obtain r s' where o: "OpenConversation api [u] (platform w) = (r, s')"
    by (cases "OpenConversation api [u] (platform w)")
  with Cons.prems obtain a ids' where
    a: "r = Inr a" "answers api us s' = Some ids'" "ids = a # ids'"
    by (cases r) (auto split: option.splits)
  let ?w1 = "emit (OpenConversationCall [u]) (w\<lparr>platform := s'\<rparr>)"
  have c: "getConvoFromUser api u w = (Inr a, ?w1)"
    using o a(1) by (simp add: getConvoFromUser_call callOpenConversation_def)
  have "answers api us (platform ?w1) = Some ids'"
    using a(2) by (simp add: emit_def)
  from Cons.IH [OF this, of "convs @ [a]"] obtain w' where
    "getConvos_users api us (convs @ [a]) ?w1 = (Inr ((convs @ [a]) @ ids'), w')"
    by blast
  then have "getConvos_users api (u # us) convs w = (Inr (convs @ ids), w')"
    using c a(3) by simp
  then show ?case by blast
qed

text \<open>
  Claim C1. With a non-empty conversation list \<open>getConvos\<close> returns the empty sequence and
  no error, whatever the user list is; the world is unchanged, so no user was resolved, and
  none of the configured conversations is returned.
\<close>

theorem getConvos_Convs_nonempty:
  "Convs cfg \<noteq> [] \<Longrightarrow> getConvos api cfg w = (Inr [], w)"
  by (simp add: getConvos_def)

theorem getConvos_Convs_nonempty_witness:
  "Convs \<lparr>Token = ''xoxb-1'', Convs = [''D7''], Users = [''U1'']\<rparr> \<noteq> [] \<and>
   getConvos exampleClient \<lparr>Token = ''xoxb-1'', Convs = [''D7''], Users = [''U1'']\<rparr>
     \<lparr>platform = [], trace = []\<rparr> = (Inr [], \<lparr>platform = [], trace = []\<rparr>)"
  using getConvos_Convs_nonempty
    [of "\<lparr>Token = ''xoxb-1'', Convs = [''D7''], Users = [''U1'']\<rparr>" exampleClient
      "\<lparr>platform = [], trace = []\<rparr>"]
  by simp

text \<open>
  Claim C6. With an empty conversation list and a non-empty user list, when every call
  that opens a conversation along the run succeeds, \<open>getConvos\<close> returns exactly the
  identifiers these calls answered, one per configured user and in the configured order:
  the \<open>i\<close>-th identifier is the answer to the call for the \<open>i\<close>-th user, made in the
  platform state the calls before it left. The calls made are one per user, in that order.
\<close>

theorem getConvos_one_per_user:
  assumes "Convs cfg = []" and "Users cfg \<noteq> []"
    and "answers api (Users cfg) (platform w) = Some ids"
  shows "\<exists>w'. getConvos api cfg w = (Inr ids, w') \<and> length ids = length (Users cfg) \<and>
           trace w' = trace w @ map (\<lambda>u. OpenConversationCall [u]) (Users cfg)"
proof -
  from getConvos_users_answers [OF assms(3), of "[]"] obtain w' where
    r: "getConvos_users api (Users cfg) [] w = (Inr ids, w')"
    by auto
  have "getConvos api cfg w = (Inr ids, w')"
    using assms(1) r by (simp add: getConvos_def)
  moreover note answers_length [OF assms(3)] getConvos_users_trace [OF r]
  ultimately show ?thesis by blast
qed

text \<open>
  On the platform with a quota of two, the two calls of the run succeed, although the
  platform refuses a call in other states.
\<close>

theorem getConvos_one_per_user_witness:
  "Convs \<lparr>Token = ''xoxb-1'', Convs = [], Users = [''U1'', ''U2'']\<rparr> = [] \<and>
   Users \<lparr>Token = ''xoxb-1'', Convs = [], Users = [''U1'', ''U2'']\<rparr> \<noteq> [] \<and>
   answers quotaClient [''U1'', ''U2''] 2 = Some [''D-U1'', ''D-U2''] \<and>
   OpenConversation quotaClient [''U1''] 0 = (Inl (ClientError ''ratelimited''), 0) \<and>
   (\<exists>w'. getConvos quotaClient \<lparr>Token = ''xoxb-1'', Convs = [], Users = [''U1'', ''U2'']\<rparr>
            \<lparr>platform = 2, trace = []\<rparr> = (Inr [''D-U1'', ''D-U2''], w')) \<and>
   getConvos quotaClient \<lparr>Token = ''xoxb-1'', Convs = [], Users = [''U1'', ''U2'']\<rparr>
     \<lparr>platform = 2, trace = []\<rparr> =
     (Inr [''D-U1'', ''D-U2''],
      \<lparr>platform = 0, trace = [OpenConversationCall [''U1''], OpenConversationCall [''U2'']]\<rparr>)"
proof -
  let ?cfg = "\<lparr>Token = ''xoxb-1'', Convs = [], Users = [''U1'', ''U2'']\<rparr>"
  have h1: "Convs ?cfg = []" and h2: "Users ?cfg \<noteq> []" by simp_all
  have a: "answers quotaClient [''U1'', ''U2''] 2 = Some [''D-U1'', ''D-U2'']"
    by (simp add: quotaClient_def)
  have h3: "answers quotaClient (Users ?cfg) (platform \<lparr>platform = 2::nat, trace = []\<rparr>) =
              Some [''D-U1'', ''D-U2'']"
    using a by simp
  have q: "OpenConversation quotaClient [''U1''] 0 = (Inl (ClientError ''ratelimited''), 0)"
    by (simp add: quotaClient_def)
  have e: "getConvos quotaClient ?cfg \<lparr>platform = 2, trace = []\<rparr> =
     (Inr [''D-U1'', ''D-U2''],
      \<lparr>platform = 0, trace = [OpenConversationCall [''U1''], OpenConversationCall [''U2'']]\<rparr>)"
    by (simp add: quotaClient_def callOpenConversation_def emit_def getConvos_def
        getConvoFromUser_def getChannelIDFromUser_def)
  from getConvos_one_per_user [OF h1 h2 h3] h1 h2 a q e
  show ?thesis by auto
qed

text \<open>
  Claim C7. When the users before \<open>u\<close> have been resolved and opening the conversation of
  \<open>u\<close> fails, \<open>getConvos\<close> returns that error and no identifier; the world it returns is the
  one the failing call left, so the calls made are those for the users up to \<open>u\<close> and none
  for the users after it.
\<close>

theorem getConvos_first_failure:
  assumes "Convs cfg = []" and "Users cfg = pre @ u # post"
    and "getConvos_users api pre [] w = (Inr ids, w1)"
    and "callOpenConversation api [u] w1 = (Inl err, w2)"
  shows "getConvos api cfg w = (Inl err, w2) \<and>
         trace w2 = trace w @ map (\<lambda>u. OpenConversationCall [u]) (pre @ [u])"
proof -
  have "getConvos_users api (u # post) ids w1 = (Inl err, w2)"
    using assms(4) by (simp add: getConvoFromUser_call)
  then have "getConvos api cfg w = (Inl err, w2)"
    using assms(1,2,3) by (simp add: getConvos_def getConvos_users_append)
  moreover have "trace w2 = trace w @ map (\<lambda>u. OpenConversationCall [u]) (pre @ [u])"
    using getConvos_users_trace [OF assms(3)] callOpenConversation_trace [OF assms(4)] by simp
  ultimately show ?thesis by simp
qed

theorem getConvos_first_failure_witness:
  "getConvos_users exampleClient [''U1''] [] \<lparr>platform = [], trace = []\<rparr> =
     (Inr [''D1''], \<lparr>platform = [], trace = [OpenConversationCall [''U1'']]\<rparr>) \<and>
   callOpenConversation exampleClient [''U9'']
     \<lparr>platform = [], trace = [OpenConversationCall [''U1'']]\<rparr> =
     (Inl (ClientError ''user_not_found''),
      \<lparr>platform = [], trace = [OpenConversationCall [''U1''], OpenConversationCall [''U9'']]\<rparr>) \<and>
   getConvos exampleClient \<lparr>Token = ''xoxb-1'', Convs = [], Users = [''U1'', ''U9'', ''U2'']\<rparr>
     \<lparr>platform = [], trace = []\<rparr> =
     (Inl (ClientError ''user_not_found''),
      \<lparr>platform = [], trace = [OpenConversationCall [''U1''], OpenConversationCall [''U9'']]\<rparr>)"
proof -
  let ?cfg = "\<lparr>Token = ''xoxb-1'', Convs = [], Users = [''U1'', ''U9'', ''U2'']\<rparr>"
  have h1: "Convs ?cfg = []" by simp
  have h2: "Users ?cfg = [''U1''] @ ''U9'' # [''U2'']" by simp
  have h3: "getConvos_users exampleClient [''U1''] [] \<lparr>platform = [], trace = []\<rparr> =
     (Inr [''D1''], \<lparr>platform = [], trace = [OpenConversationCall [''U1'']]\<rparr>)"
    by (simp add: example_run)
  have h4: "callOpenConversation exampleClient [''U9'']
     \<lparr>platform = [], trace = [OpenConversationCall [''U1'']]\<rparr> =
     (Inl (ClientError ''user_not_found''),
      \<lparr>platform = [], trace = [OpenConversationCall [''U1''], OpenConversationCall [''U9'']]\<rparr>)"
    by (simp add: example_run)
  from getConvos_first_failure [OF h1 h2 h3 h4] h3 h4 show ?thesis by simp
qed

subsection \<open>The history deleter: one page\<close>

lemma deleteMessages_append:
  "deleteMessages api conv (xs @ ys) w =
     (case deleteMessages api conv xs w of
        (None, w1) \<Rightarrow> deleteMessages api conv ys w1
      | (Some err, w1) \<Rightarrow> (Some err, w1))"
  by (induction xs arbitrary: w) (auto split: prod.splits option.splits)

text \<open>An error that leaves the page loop is never a rate-limit error.\<close>

lemma deleteMessages_error:
  "deleteMessages api conv ms w = (Some err, w') \<Longrightarrow> \<not> isRateLimit err"
  by (induction ms arbitrary: w)
     (auto simp: isRateLimit_def split: prod.splits option.splits if_splits)




subsection \<open>The history deleter: the page-fetching loop\<close>

text \<open>
  One turn of the loop on a non-empty page whose deletes raise no terminal error: line 112
  stores \<open>HasMore\<close> in \<open>cont\<close> and the loop runs while \<open>cont\<close> is false, so the function
  returns when the platform reports more pages and fetches again when it reports none.
\<close>

lemma deleteConvo_loop_page:
  assumes "callGetConversationHistory api conv w = (Inr hist, w1)"
    and "Messages hist \<noteq> []"
    and "deleteMessages api conv (Messages hist) w1 = (None, w2)"
  shows "deleteConvo_loop api conv False w =
           (if HasMore hist then Some (None, w2) else deleteConvo_loop api conv False w2)"
proof -
  have "deleteConvo_loop api conv False w = deleteConvo_loop api conv (HasMore hist) w2"
    using assms by (simp add: deleteConvo_loop.simps [of api conv False w])
  moreover have "deleteConvo_loop api conv True w2 = Some (None, w2)"
    by (simp add: deleteConvo_loop.simps [of api conv True w2])
  ultimately show ?thesis by simp
qed

text \<open>
  Claim C2, on the code. The platform serves the page \<open>[100.1]\<close> with the has-more flag set
  and then the page \<open>[100.0]\<close>. \<open>deleteConvo\<close> fetches once, deletes \<open>100.1\<close> and returns
  without error: the second page is still unserved in the final platform state, and
  \<open>100.0\<close> is never deleted.
\<close>

theorem deleteConvo_HasMore_stops:
  "deleteConvo exampleClient ''D1''
     \<lparr>platform = [Inr \<lparr>Messages = [\<lparr>Timestamp = ''100.1''\<rparr>], HasMore = True\<rparr>,
                  Inr \<lparr>Messages = [\<lparr>Timestamp = ''100.0''\<rparr>], HasMore = False\<rparr>],
      trace = []\<rparr> =
   Some (None,
     \<lparr>platform = [Inr \<lparr>Messages = [\<lparr>Timestamp = ''100.0''\<rparr>], HasMore = False\<rparr>],
      trace = [GetConversationHistoryCall ''D1'',
               LogPrintf ''Deleting message in channel D1 with timestamp 100.1'',
               DeleteMessageCall ''D1'' ''100.1'']\<rparr>)"
  by (simp add: example_run)

text \<open>
  The pages \<open>[[100.1, 100.0], []]\<close>, the first one with the has-more flag unset: two
  delete calls, a second fetch that finds the empty page, and no error. With the flag set
  on the first page the run ends after the two deletes, by \<open>deleteConvo_loop_page\<close>.
\<close>

lemma deleteConvo_two_messages_then_empty:
  "deleteConvo exampleClient ''D1''
     \<lparr>platform = [Inr \<lparr>Messages = [\<lparr>Timestamp = ''100.1''\<rparr>, \<lparr>Timestamp = ''100.0''\<rparr>],
                       HasMore = False\<rparr>,
                  Inr \<lparr>Messages = [], HasMore = False\<rparr>],
      trace = []\<rparr> =
   Some (None,
     \<lparr>platform = [],
      trace = [GetConversationHistoryCall ''D1'',
               LogPrintf ''Deleting message in channel D1 with timestamp 100.1'',
               DeleteMessageCall ''D1'' ''100.1'',
               LogPrintf ''Deleting message in channel D1 with timestamp 100.0'',
               DeleteMessageCall ''D1'' ''100.0'',
               GetConversationHistoryCall ''D1'',
               LogPrintf ''All messages cleared for channel: D1'']\<rparr>)"
  by (simp add: example_run)

text \<open>
  Claim C9. When the fetch at the start of a turn of the loop returns a page without
  messages, the function returns without error, whatever the has-more flag of that page
  is; all it adds to the trace after the fetch is the log line, so it makes no delete call
  and no further fetch.
\<close>

theorem deleteConvo_empty_page:
  assumes "callGetConversationHistory api conv w = (Inr hist, w1)" and "Messages hist = []"
  shows "deleteConvo_loop api conv False w =
           Some (None, emit (LogPrintf (''All messages cleared for channel: '' @ conv)) w1) \<and>
         deleteConvo api conv w =
           Some (None, emit (LogPrintf (''All messages cleared for channel: '' @ conv)) w1) \<and>
         trace (emit (LogPrintf (''All messages cleared for channel: '' @ conv)) w1) =
           trace w @ [GetConversationHistoryCall conv,
                      LogPrintf (''All messages cleared for channel: '' @ conv)]"
  using assms callGetConversationHistory_trace [OF assms(1)]
  by (simp add: deleteConvo_def deleteConvo_loop.simps [of api conv False w] trace_emit)

theorem deleteConvo_empty_page_witness:
  "callGetConversationHistory exampleClient ''D1''
     \<lparr>platform = [Inr \<lparr>Messages = [], HasMore = True\<rparr>,
                  Inr \<lparr>Messages = [\<lparr>Timestamp = ''100.1''\<rparr>], HasMore = False\<rparr>],
      trace = []\<rparr> =
     (Inr \<lparr>Messages = [], HasMore = True\<rparr>,
      \<lparr>platform = [Inr \<lparr>Messages = [\<lparr>Timestamp = ''100.1''\<rparr>], HasMore = False\<rparr>],
       trace = [GetConversationHistoryCall ''D1'']\<rparr>) \<and>
   deleteConvo exampleClient ''D1''
     \<lparr>platform = [Inr \<lparr>Messages = [], HasMore = True\<rparr>,
                  Inr \<lparr>Messages = [\<lparr>Timestamp = ''100.1''\<rparr>], HasMore = False\<rparr>],
      trace = []\<rparr> =
     Some (None,
       \<lparr>platform = [Inr \<lparr>Messages = [\<lparr>Timestamp = ''100.1''\<rparr>], HasMore = False\<rparr>],
        trace = [GetConversationHistoryCall ''D1'',
                 LogPrintf ''All messages cleared for channel: D1'']\<rparr>)"
proof -
  have h: "callGetConversationHistory exampleClient ''D1''
     \<lparr>platform = [Inr \<lparr>Messages = [], HasMore = True\<rparr>,
                  Inr \<lparr>Messages = [\<lparr>Timestamp = ''100.1''\<rparr>], HasMore = False\<rparr>],
      trace = []\<rparr> =
     (Inr \<lparr>Messages = [], HasMore = True\<rparr>,
      \<lparr>platform = [Inr \<lparr>Messages = [\<lparr>Timestamp = ''100.1''\<rparr>], HasMore = False\<rparr>],
       trace = [GetConversationHistoryCall ''D1'']\<rparr>)"
    by (simp add: exampleClient_def callGetConversationHistory_def emit_def)
  have m: "Messages \<lparr>Messages = [], HasMore = True\<rparr> = []" by simp
  from deleteConvo_empty_page [OF h m] h show ?thesis by (simp add: emit_def)
qed

text \<open>
  Claim C4. In a turn of the loop that starts in world \<open>w\<close>, when the messages before \<open>m\<close>
  on the fetched page have been processed and deleting \<open>m\<close> fails with an error that is not
  a rate-limit error, the function returns that error. The world it returns is the one the
  failing call left: the last event is that delete call, so no delete and no fetch follows.
  \<open>deleteConvo api conv w\<close> is \<open>deleteConvo_loop api conv False w\<close>.
\<close>

theorem deleteConvo_delete_error:
  assumes "callGetConversationHistory api conv w = (Inr hist, w1)"
    and "Messages hist = pre @ m # post"
    and "deleteMessages api conv pre w1 = (None, w2)"
    and "callDeleteMessage api conv (Timestamp m)
           (emit (LogPrintf (''Deleting message in channel '' @ conv @
                              '' with timestamp '' @ Timestamp m)) w2) = (Some err, w3)"
    and "\<not> isRateLimit err"
  shows "deleteConvo_loop api conv False w = Some (Some err, w3) \<and>
         deleteConvo api conv w = Some (Some err, w3) \<and>
         trace w3 = trace w2 @
           [LogPrintf (''Deleting message in channel '' @ conv @
                       '' with timestamp '' @ Timestamp m),
            DeleteMessageCall conv (Timestamp m)]"
proof -
  have "deleteMessages api conv (m # post) w2 = (Some err, w3)"
    using assms(4,5) by (simp add: isRateLimit_def)
  then have "deleteMessages api conv (Messages hist) w1 = (Some err, w3)"
    using assms(2,3) by (simp add: deleteMessages_append)
  then have "deleteConvo_loop api conv False w = Some (Some err, w3)"
    using assms(1,2) by (simp add: deleteConvo_loop.simps [of api conv False w])
  moreover have "trace w3 = trace w2 @
           [LogPrintf (''Deleting message in channel '' @ conv @
                       '' with timestamp '' @ Timestamp m),
            DeleteMessageCall conv (Timestamp m)]"
    using callDeleteMessage_trace [OF assms(4)] by (simp add: trace_emit)
  ultimately show ?thesis by (simp add: deleteConvo_def)
qed

theorem deleteConvo_delete_error_witness:
  "\<not> isRateLimit (ClientError ''cant_delete_message'') \<and>
   deleteConvo exampleClient ''D1''
     \<lparr>platform = [Inr \<lparr>Messages = [\<lparr>Timestamp = ''100.1''\<rparr>, \<lparr>Timestamp = ''100.3''\<rparr>,
                                    \<lparr>Timestamp = ''100.4''\<rparr>], HasMore = False\<rparr>,
                  Inr \<lparr>Messages = [\<lparr>Timestamp = ''100.4''\<rparr>], HasMore = False\<rparr>],
      trace = []\<rparr> =
   Some (Some (ClientError ''cant_delete_message''),
     \<lparr>platform = [Inr \<lparr>Messages = [\<lparr>Timestamp = ''100.4''\<rparr>], HasMore = False\<rparr>],
      trace = [GetConversationHistoryCall ''D1'',
               LogPrintf ''Deleting message in channel D1 with timestamp 100.1'',
               DeleteMessageCall ''D1'' ''100.1'',
               LogPrintf ''Deleting message in channel D1 with timestamp 100.3'',
               DeleteMessageCall ''D1'' ''100.3'']\<rparr>)"
proof -
  let ?p2 = "[Inr \<lparr>Messages = [\<lparr>Timestamp = ''100.4''\<rparr>], HasMore = False\<rparr>]"
  let ?hist = "\<lparr>Messages = [\<lparr>Timestamp = ''100.1''\<rparr>, \<lparr>Timestamp = ''100.3''\<rparr>,
                             \<lparr>Timestamp = ''100.4''\<rparr>], HasMore = False\<rparr>"
  have h1: "callGetConversationHistory exampleClient ''D1''
              \<lparr>platform = Inr ?hist # ?p2, trace = []\<rparr> =
            (Inr ?hist, \<lparr>platform = ?p2, trace = [GetConversationHistoryCall ''D1'']\<rparr>)"
    by (simp add: exampleClient_def callGetConversationHistory_def emit_def)
  have h2: "Messages ?hist = [\<lparr>Timestamp = ''100.1''\<rparr>] @ \<lparr>Timestamp = ''100.3''\<rparr> #
              [\<lparr>Timestamp = ''100.4''\<rparr>]"
    by simp
  have h3: "deleteMessages exampleClient ''D1'' [\<lparr>Timestamp = ''100.1''\<rparr>]
              \<lparr>platform = ?p2, trace = [GetConversationHistoryCall ''D1'']\<rparr> =
            (None, \<lparr>platform = ?p2,
                    trace = [GetConversationHistoryCall ''D1'',
                             LogPrintf ''Deleting message in channel D1 with timestamp 100.1'',
                             DeleteMessageCall ''D1'' ''100.1'']\<rparr>)"
    by (simp add: exampleClient_def callDeleteMessage_def emit_def)
  have h4: "callDeleteMessage exampleClient ''D1'' (Timestamp \<lparr>Timestamp = ''100.3''\<rparr>)
              (emit (LogPrintf (''Deleting message in channel '' @ ''D1'' @ '' with timestamp '' @
                                Timestamp \<lparr>Timestamp = ''100.3''\<rparr>))
                 \<lparr>platform = ?p2,
                  trace = [GetConversationHistoryCall ''D1'',
                           LogPrintf ''Deleting message in channel D1 with timestamp 100.1'',
                           DeleteMessageCall ''D1'' ''100.1'']\<rparr>) =
            (Some (ClientError ''cant_delete_message''),
             \<lparr>platform = ?p2,
              trace = [GetConversationHistoryCall ''D1'',
                       LogPrintf ''Deleting message in channel D1 with timestamp 100.1'',
                       DeleteMessageCall ''D1'' ''100.1'',
                       LogPrintf ''Deleting message in channel D1 with timestamp 100.3'',
                       DeleteMessageCall ''D1'' ''100.3'']\<rparr>)"
    by (simp add: exampleClient_def callDeleteMessage_def emit_def)
  have h5: "\<not> isRateLimit (ClientError ''cant_delete_message'')"
    by (simp add: isRateLimit_def)
  from deleteConvo_delete_error [OF h1 h2 h3 h4 h5] h5 show ?thesis by simp
qed

text \<open>
  Whatever \<open>deleteConvo_loop\<close> returns, a rate-limit error among it is the error of a
  history fetch, returned with the world that fetch left.
\<close>

lemma deleteConvo_loop_rate_limit:
  assumes "deleteConvo_loop api conv cont w = Some r"
  shows "\<forall>err w'. r = (Some err, w') \<longrightarrow> isRateLimit err \<longrightarrow>
           (\<exists>w0. callGetConversationHistory api conv w0 = (Inl err, w'))"
  using assms
proof (induct rule: deleteConvo_loop.raw_induct [rotated 1, consumes 1, case_names step])
  case (step f api conv cont w r)
  show ?case
  proof (cases "callGetConversationHistory api conv w")
    case (Pair a w1)
    show ?thesis
    proof (cases a)
      case (Inl e)
      with step(2) Pair show ?thesis by (auto split: if_splits)
    next
      case (Inr hist)
      show ?thesis
      proof (cases "deleteMessages api conv (Messages hist) w1")
        case p: (Pair b w2)
        show ?thesis
        proof (cases b)
          case None
          with step Pair Inr p show ?thesis by (auto split: if_splits)
        next
          case (Some e)
          with deleteMessages_error p have "\<not> isRateLimit e" by blast
          with step(2) Pair Inr p Some show ?thesis by (auto split: if_splits)
        qed
      qed
    qed
  qed
qed

text \<open>
  Claim C8, as stated: no rate-limit error reaches the caller, the history fetch included.
  It is not so: after the first page is deleted the second fetch fails with the rate-limit
  error, and \<open>deleteConvo\<close> returns that error; the trace ends with the fetch and holds no
  sleep.
\<close>

theorem deleteConvo_fetch_rate_limit_returned:
  "isRateLimit (ClientError ''slack rate limit exceeded, retry after 30s'') \<and>
   deleteConvo exampleClient ''D1''
     \<lparr>platform = [Inr \<lparr>Messages = [\<lparr>Timestamp = ''100.1''\<rparr>], HasMore = False\<rparr>,
                  Inl (ClientError ''slack rate limit exceeded, retry after 30s'')],
      trace = []\<rparr> =
   Some (Some (ClientError ''slack rate limit exceeded, retry after 30s''),
     \<lparr>platform = [],
      trace = [GetConversationHistoryCall ''D1'',
               LogPrintf ''Deleting message in channel D1 with timestamp 100.1'',
               DeleteMessageCall ''D1'' ''100.1'',
               GetConversationHistoryCall ''D1'']\<rparr>)"
  by (simp add: example_run)

text \<open>
  Claim C8, amended. A rate-limit error that \<open>deleteConvo\<close> returns is never the error of
  a delete call: it is the error of a history fetch, returned with the world that fetch
  left. And an error of the history fetch, rate-limit or not, is returned at once.
\<close>

theorem deleteConvo_rate_limit_only_from_fetch:
  "(deleteConvo api conv w = Some (Some err, w') \<and> isRateLimit err \<longrightarrow>
      (\<exists>w0. callGetConversationHistory api conv w0 = (Inl err, w'))) \<and>
   (callGetConversationHistory api conv w = (Inl err, w1) \<longrightarrow>
      deleteConvo api conv w = Some (Some err, w1))"
proof -
  have "callGetConversationHistory api conv w = (Inl err, w1) \<Longrightarrow>
      deleteConvo api conv w = Some (Some err, w1)"
    by (simp add: deleteConvo_def deleteConvo_loop.simps [of api conv False w])
  then show ?thesis
    using deleteConvo_loop_rate_limit [of api conv False w "(Some err, w')"]
    by (auto simp: deleteConvo_def)
qed

theorem deleteConvo_rate_limit_only_from_fetch_witness:
  "isRateLimit (ClientError ''slack rate limit exceeded, retry after 30s'') \<and>
   callGetConversationHistory exampleClient ''D1''
     \<lparr>platform = [Inl (ClientError ''slack rate limit exceeded, retry after 30s'')],
      trace = []\<rparr> =
     (Inl (ClientError ''slack rate limit exceeded, retry after 30s''),
      \<lparr>platform = [], trace = [GetConversationHistoryCall ''D1'']\<rparr>) \<and>
   deleteConvo exampleClient ''D1''
     \<lparr>platform = [Inl (ClientError ''slack rate limit exceeded, retry after 30s'')],
      trace = []\<rparr> =
     Some (Some (ClientError ''slack rate limit exceeded, retry after 30s''),
           \<lparr>platform = [], trace = [GetConversationHistoryCall ''D1'']\<rparr>) \<and>
   (\<exists>w0. callGetConversationHistory exampleClient ''D1'' w0 =
      (Inl (ClientError ''slack rate limit exceeded, retry after 30s''),
       \<lparr>platform = [], trace = [GetConversationHistoryCall ''D1'']\<rparr>))"
proof -
  have r: "isRateLimit (ClientError ''slack rate limit exceeded, retry after 30s'')"
    by (simp add: isRateLimit_def)
  have h: "callGetConversationHistory exampleClient ''D1''
     \<lparr>platform = [Inl (ClientError ''slack rate limit exceeded, retry after 30s'')],
      trace = []\<rparr> =
     (Inl (ClientError ''slack rate limit exceeded, retry after 30s''),
      \<lparr>platform = [], trace = [GetConversationHistoryCall ''D1'']\<rparr>)"
    by (simp add: exampleClient_def callGetConversationHistory_def emit_def)
  from deleteConvo_rate_limit_only_from_fetch [of exampleClient "''D1''"
      "\<lparr>platform = [Inl (ClientError ''slack rate limit exceeded, retry after 30s'')],
        trace = []\<rparr>"
      "ClientError ''slack rate limit exceeded, retry after 30s''"
      "\<lparr>platform = [], trace = [GetConversationHistoryCall ''D1'']\<rparr>"
      "\<lparr>platform = [], trace = [GetConversationHistoryCall ''D1'']\<rparr>"] r h
  show ?thesis by simp
qed

end
